theory Spec2Isabelle
  imports Main "HOL-Library.Sublist" "HOL-Library.AList" "HOL-Library.Char_ord"
    "HOL-Library.List_Lexorder"
begin

section \<open>Python strings, lists and dictionaries\<close>

text \<open>
  The script \<^verbatim>\<open>scripts/download_apple_docs.py\<close> works on the dictionaries that
  \<^verbatim>\<open>json.load\<close> returns. A dictionary is modelled by the keys the code reads from it:
  each key is a field of option type, \<open>None\<close> when the key is absent, so that
  \<^verbatim>\<open>d.get(key, default)\<close> is \<open>get_or (key d) default\<close>. A key that is present holds a value
  of the JSON type the code expects there (a string, a list, a dictionary); lists may be
  empty and tag strings may be any string. Strings are \<open>char list\<close>, compared character by
  character, as Python compares \<^verbatim>\<open>str\<close> values by code point.
\<close>

datatype error = IndexError | KeyError

definition get_or :: "'a option \<Rightarrow> 'a \<Rightarrow> 'a" where
  "get_or v d = (case v of None \<Rightarrow> d | Some x \<Rightarrow> x)"

text \<open>\<^verbatim>\<open>xs[0]\<close> raises IndexError on the empty list.\<close>

definition index0 :: "'a list \<Rightarrow> error + 'a" where
  "index0 xs = (case xs of [] \<Rightarrow> Inl IndexError | x # _ \<Rightarrow> Inr x)"

text \<open>\<^verbatim>\<open>sep.join(xs)\<close>.\<close>

fun join :: "string \<Rightarrow> string list \<Rightarrow> string" where
  "join sep [] = []"
| "join sep [x] = x"
| "join sep (x # y # ys) = x @ sep @ join sep (y # ys)"

text \<open>\<^verbatim>\<open>s.split(sep)\<close> for a separator of one character; the result is never empty.\<close>

fun split_chr :: "char \<Rightarrow> string \<Rightarrow> string list" where
  "split_chr sep [] = [[]]"
| "split_chr sep (c # cs) =
     (if c = sep then [] # split_chr sep cs
      else (case split_chr sep cs of [] \<Rightarrow> [[c]] | w # ws \<Rightarrow> (c # w) # ws))"

text \<open>
  \<^verbatim>\<open>s.split("/")[-1]\<close>: the last element of the split, which exists because the split
  is never empty (lemma \<open>split_chr_nonempty\<close> below).
\<close>

definition last_of_split :: "string \<Rightarrow> string" where
  "last_of_split s = last (split_chr (CHR ''/'') s)"

text \<open>
  \<^verbatim>\<open>s.replace(old, new)\<close> for a non-empty \<open>old\<close>: the occurrences of \<open>old\<close> are replaced from
  left to right, without overlap. Every step consumes at least one character, so the
  length of the string is enough fuel.
\<close>

fun replace_fuel :: "nat \<Rightarrow> string \<Rightarrow> string \<Rightarrow> string \<Rightarrow> string" where
  "replace_fuel 0 old new s = s"
| "replace_fuel (Suc n) old new s =
     (case s of [] \<Rightarrow> []
      | c # cs \<Rightarrow>
          if prefix old s then new @ replace_fuel n old new (drop (length old) s)
          else c # replace_fuel n old new cs)"

definition replace :: "string \<Rightarrow> string \<Rightarrow> string \<Rightarrow> string" where
  "replace old new s = replace_fuel (length s) old new s"

text \<open>\<^verbatim>\<open>s.lower()\<close> on ASCII letters; the other characters are left as they are.\<close>

definition lower_chr :: "char \<Rightarrow> char" where
  "lower_chr c =
     (case map_of (zip ''ABCDEFGHIJKLMNOPQRSTUVWXYZ'' ''abcdefghijklmnopqrstuvwxyz'') c of
        None \<Rightarrow> c
      | Some l \<Rightarrow> l)"

definition lower :: "string \<Rightarrow> string" where
  "lower s = map lower_chr s"

section \<open>Inline content and its reduction\<close>

text \<open>
  An item of an inline-content list is a string, a dictionary, or something else (which
  the reducer skips). The dictionary is given by the keys the reducer reads:
  \<^verbatim>\<open>type\<close>, \<^verbatim>\<open>text\<close>, \<^verbatim>\<open>code\<close>, \<^verbatim>\<open>identifier\<close>, \<^verbatim>\<open>inlineContent\<close>, \<^verbatim>\<open>destination\<close>,
  \<^verbatim>\<open>content\<close>, in this order.
\<close>

datatype inline =
    IStr string
  | IDict (i_type: "string option") (i_text: "string option") (i_code: "string option")
      (i_identifier: "string option") (i_inlineContent: "inline list option")
      (i_destination: "string option") (i_content: "inline list option")
  | IOther

fun extract_text_from_content :: "inline list \<Rightarrow> string"
  and extract_item :: "inline \<Rightarrow> string" where
  "extract_text_from_content [] = []"
| "extract_text_from_content (item # rest) = extract_item item @ extract_text_from_content rest"
| "extract_item (IStr s) = s"
| "extract_item IOther = []"
| "extract_item (IDict ty txt code ident ic dest cont) =
     (let item_type = get_or ty [] in
      if item_type = ''text'' then get_or txt []
      else if item_type = ''codeVoice'' then ''`'' @ get_or code [] @ ''`''
      else if item_type = ''reference'' then
        (let identifier = get_or ident [];
             name = (if CHR ''/'' \<in> set identifier then last_of_split identifier else identifier)
         in ''`'' @ name @ ''`'')
      else if item_type = ''emphasis'' then
        ''*'' @ (case ic of None \<Rightarrow> [] | Some xs \<Rightarrow> extract_text_from_content xs) @ ''*''
      else if item_type = ''strong'' then
        ''**'' @ (case ic of None \<Rightarrow> [] | Some xs \<Rightarrow> extract_text_from_content xs) @ ''**''
      else if item_type = ''link'' then
        ''['' @ (case ic of None \<Rightarrow> [] | Some xs \<Rightarrow> extract_text_from_content xs)
          @ '']('' @ get_or dest [] @ '')''
      else (case ic of Some xs \<Rightarrow> extract_text_from_content xs
            | None \<Rightarrow> (case cont of Some ys \<Rightarrow> extract_text_from_content ys | None \<Rightarrow> [])))"


section \<open>The document model\<close>

text \<open>
  One record for each kind of dictionary, with the keys the code reads. The items of a
  parameter's \<^verbatim>\<open>content\<close> and of a list item's \<^verbatim>\<open>content\<close> are read only for \<^verbatim>\<open>type\<close> and
  \<^verbatim>\<open>inlineContent\<close>.
\<close>

record token =
  tok_text :: "string option"

record decl_node =
  d_tokens :: "token list option"
  d_languages :: "string list option"

record para =
  c_type :: "string option"
  c_inlineContent :: "inline list option"

record list_item =
  li_content :: "para list option"

record content_item =
  ci_type :: "string option"
  ci_level :: "int option"
  ci_inlineContent :: "inline list option"
  ci_syntax :: "string option"
  ci_code :: "string list option"
  ci_items :: "list_item list option"

record param =
  p_name :: "string option"
  p_content :: "para list option"

record primary_section =
  s_kind :: "string option"
  s_declarations :: "decl_node list option"
  s_content :: "content_item list option"
  s_parameters :: "param list option"

record platform =
  pl_name :: "string option"
  pl_introducedAt :: "string option"

record metadata =
  m_title :: "string option"
  m_role :: "string option"
  m_symbolKind :: "string option"
  m_platforms :: "platform list option"

record ref_summary =
  r_title :: "string option"
  r_abstract :: "inline list option"

record topic =
  t_title :: "string option"
  t_identifiers :: "string list option"

record doc =
  doc_metadata :: "metadata option"
  doc_primaryContentSections :: "primary_section list option"
  doc_topicSections :: "topic list option"
  doc_seeAlsoSections :: "topic list option"
  doc_references :: "(string \<rightharpoonup> ref_summary) option"

text \<open>The empty dictionary \<^verbatim>\<open>{}\<close>, the default of \<^verbatim>\<open>data.get("metadata", {})\<close> and
  \<^verbatim>\<open>refs.get(identifier, {})\<close>.\<close>

definition empty_metadata :: metadata where
  "empty_metadata = \<lparr>m_title = None, m_role = None, m_symbolKind = None, m_platforms = None\<rparr>"

definition empty_reference :: ref_summary where
  "empty_reference = \<lparr>r_title = None, r_abstract = None\<rparr>"

definition nl :: string where
  "nl = [CHR 0x0A]"

section \<open>Declarations and child documents\<close>

definition format_declaration :: "decl_node \<Rightarrow> string" where
  "format_declaration decl =
     (let tokens = get_or (d_tokens decl) []
      in concat (map (\<lambda>t. get_or (tok_text t) []) tokens))"

definition doc_prefix :: string where
  "doc_prefix = ''doc://com.apple.screencapturekit/documentation/''"

definition DOCS_JSON_BASE :: string where
  "DOCS_JSON_BASE = ''https://developer.apple.com/tutorials/data/documentation''"

definition identifier_to_path :: "string \<Rightarrow> string option" where
  "identifier_to_path identifier =
     (if \<not> prefix doc_prefix identifier then None
      else Some (lower (replace doc_prefix [] identifier)))"

text \<open>
  \<open>fetch_json\<close> is the network: the answer to a URL, \<open>None\<close> when the request fails.
  \<^verbatim>\<open>if not path\<close> holds for \<^verbatim>\<open>None\<close> and for the empty string.
\<close>

definition fetch_child_doc :: "(string \<Rightarrow> doc option) \<Rightarrow> string \<Rightarrow> doc option" where
  "fetch_child_doc fetch_json identifier =
     (case identifier_to_path identifier of
        None \<Rightarrow> None
      | Some path \<Rightarrow>
          if path = [] then None
          else fetch_json (DOCS_JSON_BASE @ ''/'' @ path @ ''.json''))"

text \<open>
  The inner loop of \<^verbatim>\<open>format_child_doc\<close> over the items of a \<^verbatim>\<open>content\<close> section: it breaks
  at the first paragraph whose text is not empty.
\<close>

fun first_description :: "content_item list \<Rightarrow> string option" where
  "first_description [] = None"
| "first_description (content_item # rest) =
     (if ci_type content_item = Some ''paragraph'' then
        (let desc = extract_text_from_content (get_or (ci_inlineContent content_item) [])
         in if desc \<noteq> [] then Some desc else first_description rest)
      else first_description rest)"

text \<open>
  The loop over the primary sections, with the variables \<^verbatim>\<open>declaration\<close> and
  \<^verbatim>\<open>description\<close> as its state. The \<^verbatim>\<open>break\<close> leaves the inner loop only, so a later
  section assigns again.
\<close>

fun format_child_sections :: "primary_section list \<Rightarrow> string \<times> string \<Rightarrow> string \<times> string" where
  "format_child_sections [] st = st"
| "format_child_sections (section # rest) (declaration, description) =
     (let kind = get_or (s_kind section) [] in
      if kind = ''declarations'' then
        format_child_sections rest
          (case get_or (s_declarations section) [] of
             [] \<Rightarrow> declaration
           | decl # _ \<Rightarrow> format_declaration decl,
           description)
      else if kind = ''content'' then
        format_child_sections rest
          (declaration,
           case first_description (get_or (s_content section) []) of
             None \<Rightarrow> description
           | Some desc \<Rightarrow> desc)
      else format_child_sections rest (declaration, description))"

text \<open>
  \<^verbatim>\<open>format_child_doc(data)\<close>; \<open>None\<close> is a child document that is not available
  (\<^verbatim>\<open>if not data: return ""\<close>).
\<close>

definition format_child_doc :: "doc option \<Rightarrow> string" where
  "format_child_doc data =
     (case data of
        None \<Rightarrow> []
      | Some d \<Rightarrow>
          (let primary = get_or (doc_primaryContentSections d) [];
               st = format_child_sections primary ([], []);
               declaration = fst st;
               description = snd st
           in join nl
                ((if declaration \<noteq> [] then [''```swift'', declaration, ''```''] else [])
                 @ (if description \<noteq> [] then [description] else []))))"


section \<open>Rendering one document: \<^verbatim>\<open>json_to_markdown\<close>\<close>

text \<open>
  Every loop that appends to \<^verbatim>\<open>md_lines\<close> is a function that returns the lines it
  appends. An exception leaves the function at once, so a loop that can raise returns
  \<open>Inl\<close> the error or \<open>Inr\<close> its lines.
\<close>

definition platform_entry :: "platform \<Rightarrow> string list" where
  "platform_entry p =
     (let name = get_or (pl_name p) [];
          intro = get_or (pl_introducedAt p) []
      in if name \<noteq> [] \<and> intro \<noteq> [] then [name @ '' '' @ intro @ ''+''] else [])"

definition availability_lines :: "platform list \<Rightarrow> string list" where
  "availability_lines platforms =
     (if platforms \<noteq> [] then
        (let avail = concat (map platform_entry platforms)
         in if avail \<noteq> [] then [''**Availability:** '' @ join '', '' avail, []] else [])
      else [])"

fun declarations_lines :: "decl_node list \<Rightarrow> error + string list" where
  "declarations_lines [] = Inr []"
| "declarations_lines (decl # rest) =
     (let code = format_declaration decl in
      case index0 (get_or (d_languages decl) [''swift'']) of
        Inl e \<Rightarrow> Inl e
      | Inr lang \<Rightarrow>
          (case declarations_lines rest of
             Inl e \<Rightarrow> Inl e
           | Inr ls \<Rightarrow> Inr ([''```'' @ lang, code, ''```'', []] @ ls)))"

definition list_item_lines :: "list_item \<Rightarrow> string list" where
  "list_item_lines li =
     (let item_content = get_or (li_content li) []
      in concat (map (\<lambda>ic.
           if c_type ic = Some ''paragraph''
           then [''- '' @ extract_text_from_content (get_or (c_inlineContent ic) [])]
           else []) item_content))"

definition content_item_lines :: "content_item \<Rightarrow> string list" where
  "content_item_lines content_item =
     (let content_type = get_or (ci_type content_item) [] in
      if content_type = ''heading'' then
        (let level = get_or (ci_level content_item) 2;
             txt = extract_text_from_content (get_or (ci_inlineContent content_item) [])
         in [replicate (nat level) (CHR ''#'') @ '' '' @ txt, []])
      else if content_type = ''paragraph'' then
        [extract_text_from_content (get_or (ci_inlineContent content_item) []), []]
      else if content_type = ''codeListing'' then
        (let lang = get_or (ci_syntax content_item) ''swift'';
             code = join nl (get_or (ci_code content_item) [])
         in [''```'' @ lang, code, ''```'', []])
      else if content_type = ''unorderedList'' then
        concat (map list_item_lines (get_or (ci_items content_item) [])) @ [[]]
      else [])"

text \<open>The description of a parameter: the text of its first paragraph, empty or not.\<close>

fun param_desc :: "para list \<Rightarrow> string" where
  "param_desc [] = []"
| "param_desc (c # rest) =
     (if c_type c = Some ''paragraph''
      then extract_text_from_content (get_or (c_inlineContent c) [])
      else param_desc rest)"

definition param_line :: "param \<Rightarrow> string" where
  "param_line param =
     (let name = get_or (p_name param) [];
          content = get_or (p_content param) [];
          desc = param_desc content
      in ''- **'' @ name @ ''**: '' @ desc)"

definition section_lines :: "primary_section \<Rightarrow> error + string list" where
  "section_lines section =
     (let kind = get_or (s_kind section) [] in
      if kind = ''declarations'' then
        (case declarations_lines (get_or (s_declarations section) []) of
           Inl e \<Rightarrow> Inl e
         | Inr ls \<Rightarrow> Inr ([''## Declaration'', []] @ ls))
      else if kind = ''content'' then
        Inr (concat (map content_item_lines (get_or (s_content section) [])))
      else if kind = ''parameters'' then
        Inr ([''## Parameters'', []] @ map param_line (get_or (s_parameters section) []) @ [[]])
      else Inr [])"

fun primary_lines :: "primary_section list \<Rightarrow> error + string list" where
  "primary_lines [] = Inr []"
| "primary_lines (section # rest) =
     (case section_lines section of
        Inl e \<Rightarrow> Inl e
      | Inr ls \<Rightarrow>
          (case primary_lines rest of
             Inl e \<Rightarrow> Inl e
           | Inr ls' \<Rightarrow> Inr (ls @ ls')))"

definition ns_prefix :: string where
  "ns_prefix = ''doc://com.apple.screencapturekit''"

definition ref_title_of :: "(string \<rightharpoonup> ref_summary) \<Rightarrow> string \<Rightarrow> string" where
  "ref_title_of refs identifier =
     (let ref = get_or (refs identifier) empty_reference
      in get_or (r_title ref) (last_of_split identifier))"

text \<open>
  The body of the loop over the identifiers of a topic. It returns the lines it appends
  and the identifiers it passes to \<^verbatim>\<open>fetch_child_doc\<close>, in the order of the calls.
  \<^verbatim>\<open>time.sleep\<close> has no part in the output and is left out.

  \<^verbatim>\<open>if child_data\<close> is false for \<^verbatim>\<open>None\<close> and for the empty dictionary. A dictionary with
  none of the keys read here is the record with every field \<open>None\<close>, and
  \<^verbatim>\<open>format_child_doc\<close> is empty on it (lemma \<open>format_child_doc_no_keys\<close>), so that the lines
  are the same on both branches of the test; the test is modelled on the option.
\<close>

definition member_lines ::
  "(string \<Rightarrow> doc option) \<Rightarrow> (string \<rightharpoonup> ref_summary) \<Rightarrow> bool \<Rightarrow> string
     \<Rightarrow> string list \<times> string list" where
  "member_lines fetch_json refs include_children identifier =
     (let ref = get_or (refs identifier) empty_reference;
          ref_title = get_or (r_title ref) (last_of_split identifier);
          ref_abstract = get_or (r_abstract ref) [];
          abstract_text =
            (if ref_abstract \<noteq> [] then extract_text_from_content ref_abstract else []);
          summary =
            [''#### '' @ ref_title, []]
            @ (if abstract_text \<noteq> [] then [abstract_text, []] else [])
      in if include_children \<and> prefix ns_prefix identifier then
           (let child_data = fetch_child_doc fetch_json identifier;
                child_lines =
                  (case child_data of
                     None \<Rightarrow> []
                   | Some d \<Rightarrow>
                       (let child_content = format_child_doc (Some d)
                        in if child_content \<noteq> [] then [child_content, []] else []))
            in (summary @ child_lines, [identifier]))
         else (summary, []))"

definition topic_lines ::
  "(string \<Rightarrow> doc option) \<Rightarrow> (string \<rightharpoonup> ref_summary) \<Rightarrow> bool \<Rightarrow> topic
     \<Rightarrow> string list \<times> string list" where
  "topic_lines fetch_json refs include_children topic =
     (let topic_title = get_or (t_title topic) [];
          ms = map (member_lines fetch_json refs include_children)
                 (get_or (t_identifiers topic) [])
      in ([''### '' @ topic_title, []] @ concat (map fst ms) @ [[]], concat (map snd ms)))"

definition topics_lines ::
  "(string \<Rightarrow> doc option) \<Rightarrow> (string \<rightharpoonup> ref_summary) \<Rightarrow> bool \<Rightarrow> topic list
     \<Rightarrow> string list \<times> string list" where
  "topics_lines fetch_json refs include_children topics =
     (if topics \<noteq> [] then
        (let ts = map (topic_lines fetch_json refs include_children) topics
         in ([''## Topics'', []] @ concat (map fst ts), concat (map snd ts)))
      else ([], []))"

definition see_also_lines :: "(string \<rightharpoonup> ref_summary) \<Rightarrow> topic list \<Rightarrow> string list" where
  "see_also_lines refs see_also =
     (if see_also \<noteq> [] then
        [''## See Also'', []]
        @ concat (map (\<lambda>section.
            map (\<lambda>identifier. ''- '' @ ref_title_of refs identifier)
              (get_or (t_identifiers section) [])) see_also)
        @ [[]]
      else [])"

text \<open>
  \<^verbatim>\<open>json_to_markdown(data, path, include_children)\<close>: the markdown, or the exception, and
  the calls of \<^verbatim>\<open>fetch_child_doc\<close> made on the way. The primary sections come before the
  topics, so an exception is raised before any call.
\<close>

definition json_to_markdown ::
  "(string \<Rightarrow> doc option) \<Rightarrow> doc \<Rightarrow> string \<Rightarrow> bool \<Rightarrow> (error + string) \<times> string list" where
  "json_to_markdown fetch_json data path include_children =
     (let metadata = get_or (doc_metadata data) empty_metadata;
          title = get_or (m_title metadata) (last_of_split path);
          role = get_or (m_role metadata) [];
          platforms = get_or (m_platforms metadata) [];
          head_lines =
            [''# '' @ title, []]
            @ (if role \<noteq> [] then [''**Type:** '' @ role, []] else [])
            @ availability_lines platforms;
          primary = get_or (doc_primaryContentSections data) []
      in case primary_lines primary of
           Inl e \<Rightarrow> (Inl e, [])
         | Inr body_lines \<Rightarrow>
             (let refs = get_or (doc_references data) Map.empty;
                  topics = get_or (doc_topicSections data) [];
                  tl = topics_lines fetch_json refs include_children topics;
                  see_also = get_or (doc_seeAlsoSections data) []
              in (Inr (join nl (head_lines @ body_lines @ fst tl @ see_also_lines refs see_also)),
                  snd tl)))"


section \<open>The aggregate reference: \<^verbatim>\<open>generate_api_complete\<close>\<close>

record member =
  mem_name :: string
  mem_declaration :: string
  mem_kind :: string
  mem_topic :: string

text \<open>The value stored under a title; \<open>info_declaration\<close> is \<open>None\<close> for Python's \<^verbatim>\<open>None\<close>.\<close>

record class_info =
  info_declaration :: "string option"
  info_members :: "member list"

text \<open>Python's truth value of \<^verbatim>\<open>class_decl\<close>: false for \<^verbatim>\<open>None\<close> and for the empty string.\<close>

definition truthy :: "string option \<Rightarrow> bool" where
  "truthy v = (case v of None \<Rightarrow> False | Some s \<Rightarrow> s \<noteq> [])"

text \<open>The loop that finds the class-level declaration, with \<^verbatim>\<open>class_decl\<close> as its state.\<close>

fun class_decl_loop :: "primary_section list \<Rightarrow> string option \<Rightarrow> string option" where
  "class_decl_loop [] class_decl = class_decl"
| "class_decl_loop (section # rest) class_decl =
     class_decl_loop rest
       (if s_kind section = Some ''declarations'' then
          (case get_or (s_declarations section) [] of
             [] \<Rightarrow> class_decl
           | decl # _ \<Rightarrow> Some (format_declaration decl))
        else class_decl)"

text \<open>What one primary section of a fetched child appends to \<^verbatim>\<open>members\<close>.\<close>

definition child_section_members ::
  "string \<Rightarrow> string \<Rightarrow> string \<Rightarrow> primary_section \<Rightarrow> member list" where
  "child_section_members child_title child_role topic_title section =
     (if s_kind section = Some ''declarations'' then
        (case get_or (s_declarations section) [] of
           [] \<Rightarrow> []
         | decl # _ \<Rightarrow>
             (let code = format_declaration decl
              in if code \<noteq> [] then
                   [\<lparr>mem_name = child_title, mem_declaration = code,
                     mem_kind = child_role, mem_topic = topic_title\<rparr>]
                 else []))
      else [])"

text \<open>
  The body of the loop over the identifiers of a topic. As in \<open>member_lines\<close>, a fetched
  dictionary with none of the keys read here appends nothing on either branch of
  \<^verbatim>\<open>if not child_data\<close>.
\<close>

definition identifier_members ::
  "(string \<Rightarrow> doc option) \<Rightarrow> string \<Rightarrow> string \<Rightarrow> member list" where
  "identifier_members fetch_json topic_title identifier =
     (if \<not> prefix ns_prefix identifier then []
      else
        (case fetch_child_doc fetch_json identifier of
           None \<Rightarrow> []
         | Some child_data \<Rightarrow>
             (let child_meta = get_or (doc_metadata child_data) empty_metadata;
                  child_title = get_or (m_title child_meta) [];
                  child_role = get_or (m_symbolKind child_meta) (get_or (m_role child_meta) []);
                  child_primary = get_or (doc_primaryContentSections child_data) []
              in concat (map (child_section_members child_title child_role topic_title)
                           child_primary))))"

definition topic_members :: "(string \<Rightarrow> doc option) \<Rightarrow> topic \<Rightarrow> member list" where
  "topic_members fetch_json topic =
     (let topic_title = get_or (t_title topic) []
      in concat (map (identifier_members fetch_json topic_title)
                   (get_or (t_identifiers topic) [])))"

definition doc_members :: "(string \<Rightarrow> doc option) \<Rightarrow> doc \<Rightarrow> member list" where
  "doc_members fetch_json data =
     concat (map (topic_members fetch_json) (get_or (doc_topicSections data) []))"

text \<open>
  The body of the loop over the files: \<open>file\<close> is the stem of the file name and the
  document loaded from it, \<open>api_by_class\<close> the dictionary built so far, in insertion order.
\<close>

definition process_doc ::
  "(string \<Rightarrow> doc option) \<Rightarrow> (string \<times> class_info) list \<Rightarrow> string \<times> doc
     \<Rightarrow> (string \<times> class_info) list" where
  "process_doc fetch_json api_by_class file =
     (let data = snd file;
          metadata = get_or (doc_metadata data) empty_metadata;
          title = get_or (m_title metadata) (fst file);
          role = get_or (m_role metadata) []
      in if role \<notin> set [''symbol'', ''collectionGroup''] then api_by_class
         else
           (let class_decl =
                  class_decl_loop (get_or (doc_primaryContentSections data) []) None;
                members = doc_members fetch_json data
            in if truthy class_decl \<or> members \<noteq> [] then
                 AList.update title
                   \<lparr>info_declaration = class_decl, info_members = members\<rparr> api_by_class
               else api_by_class))"

definition collect ::
  "(string \<Rightarrow> doc option) \<Rightarrow> (string \<times> doc) list \<Rightarrow> (string \<times> class_info) list" where
  "collect fetch_json corpus = fold (\<lambda>file api. process_doc fetch_json api file) corpus []"

text \<open>The dictionary \<^verbatim>\<open>members_by_topic\<close>, in insertion order.\<close>

fun group_by_topic ::
  "member list \<Rightarrow> (string \<times> member list) list \<Rightarrow> (string \<times> member list) list" where
  "group_by_topic [] members_by_topic = members_by_topic"
| "group_by_topic (member # rest) members_by_topic =
     (let topic = mem_topic member;
          mbt = (if map_of members_by_topic topic = None
                 then AList.update topic [] members_by_topic else members_by_topic)
      in group_by_topic rest (AList.map_entry topic (\<lambda>ms. ms @ [member]) mbt))"

definition topic_block :: "string \<times> member list \<Rightarrow> string list" where
  "topic_block tm =
     (let topic = fst tm; members = snd tm
      in (if topic \<noteq> [] then [''### '' @ topic, []] else [])
         @ [''```swift''] @ map mem_declaration members @ [''```'', []])"

definition class_lines :: "string \<Rightarrow> class_info \<Rightarrow> string list" where
  "class_lines class_name info =
     [''## '' @ class_name, []]
     @ (if truthy (info_declaration info)
        then [''```swift'', get_or (info_declaration info) [], ''```'', []] else [])
     @ concat (map topic_block (group_by_topic (info_members info) []))
     @ [''---'', []]"

text \<open>The loop over the sorted titles; \<^verbatim>\<open>api_by_class[class_name]\<close> raises KeyError on a
  missing key.\<close>

fun class_sections :: "(string \<times> class_info) list \<Rightarrow> string list \<Rightarrow> error + string list" where
  "class_sections api_by_class [] = Inr []"
| "class_sections api_by_class (class_name # rest) =
     (case map_of api_by_class class_name of
        None \<Rightarrow> Inl KeyError
      | Some info \<Rightarrow>
          (case class_sections api_by_class rest of
             Inl e \<Rightarrow> Inl e
           | Inr ls \<Rightarrow> Inr (class_lines class_name info @ ls)))"

definition toc_entry :: "string \<Rightarrow> string" where
  "toc_entry class_name =
     (let anchor = replace '' '' ''-'' (lower class_name)
      in ''- ['' @ class_name @ ''](#'' @ anchor @ '')'')"

text \<open>
  \<^verbatim>\<open>sorted(api_by_class.keys())\<close>: the keys in ascending order of \<^verbatim>\<open>str\<close>, which is the
  lexicographic order of the characters' codes. The keys are distinct, and the sorted
  list of distinct keys is unique, so \<open>sort\<close> returns what \<^verbatim>\<open>sorted\<close> returns.
\<close>

definition sorted_keys :: "(string \<times> class_info) list \<Rightarrow> string list" where
  "sorted_keys api_by_class = sort (map fst api_by_class)"

definition api_header :: "string list" where
  "api_header =
     [''# ScreenCaptureKit API Reference'', [],
      ''Complete API signatures for all ScreenCaptureKit types.'', [],
      ''---'', []]"

definition toc_lines :: "(string \<times> class_info) list \<Rightarrow> string list" where
  "toc_lines api_by_class =
     [''## Table of Contents'', []] @ map toc_entry (sorted_keys api_by_class)
     @ [[], ''---'', []]"

definition render_api :: "(string \<times> class_info) list \<Rightarrow> error + string" where
  "render_api api_by_class =
     (case class_sections api_by_class (sorted_keys api_by_class) of
        Inl e \<Rightarrow> Inl e
      | Inr ls \<Rightarrow> Inr (join nl (api_header @ toc_lines api_by_class @ ls)))"

text \<open>
  \<^verbatim>\<open>generate_api_complete()\<close>, as a function of the network and of the corpus: the
  documents of the JSON directory with the stems of their file names, in the sorted
  order of the files. The result is the text written to \<^verbatim>\<open>API-COMPLETE.md\<close>.
\<close>

definition generate_api_complete ::
  "(string \<Rightarrow> doc option) \<Rightarrow> (string \<times> doc) list \<Rightarrow> error + string" where
  "generate_api_complete fetch_json corpus = render_api (collect fetch_json corpus)"


section \<open>Notions of the specification\<close>

text \<open>
  The final \<open>/\<close>-delimited segment of a string: its longest suffix without \<open>/\<close>, which is
  the whole string when it has no \<open>/\<close>.
\<close>

definition last_segment :: "string \<Rightarrow> string" where
  "last_segment s = rev (takeWhile (\<lambda>c. c \<noteq> CHR ''/'') (rev s))"

text \<open>The inline nodes of the specification, as the dictionaries that carry them.\<close>

definition plainText :: "string \<Rightarrow> inline" where
  "plainText s = IDict (Some ''text'') (Some s) None None None None None"

definition codeVoice :: "string \<Rightarrow> inline" where
  "codeVoice c = IDict (Some ''codeVoice'') None (Some c) None None None None"

definition reference :: "string \<Rightarrow> inline" where
  "reference identifier = IDict (Some ''reference'') None None (Some identifier) None None None"

definition emphasis :: "inline list \<Rightarrow> inline" where
  "emphasis children = IDict (Some ''emphasis'') None None None (Some children) None None"

definition strong :: "inline list \<Rightarrow> inline" where
  "strong children = IDict (Some ''strong'') None None None (Some children) None None"

definition link :: "inline list \<Rightarrow> string \<Rightarrow> inline" where
  "link children destination =
     IDict (Some ''link'') None None None (Some children) (Some destination) None"

text \<open>A document with no key at all, and a declaration whose list of languages is
  present and empty.\<close>

definition empty_doc :: doc where
  "empty_doc =
     \<lparr>doc_metadata = None, doc_primaryContentSections = None, doc_topicSections = None,
      doc_seeAlsoSections = None, doc_references = None\<rparr>"

definition decl_without_language :: decl_node where
  "decl_without_language =
     \<lparr>d_tokens = Some [\<lparr>tok_text = Some ''class SCStream''\<rparr>], d_languages = Some []\<rparr>"

definition doc_without_language :: doc where
  "doc_without_language =
     empty_doc\<lparr>doc_primaryContentSections :=
       Some [\<lparr>s_kind = Some ''declarations'', s_declarations = Some [decl_without_language],
              s_content = None, s_parameters = None\<rparr>]\<rparr>"

text \<open>
  The declarations that \<^verbatim>\<open>json_to_markdown\<close> renders: those of the primary sections of
  kind \<^verbatim>\<open>declarations\<close>.
\<close>

definition rendered_declarations :: "doc \<Rightarrow> decl_node list" where
  "rendered_declarations data =
     concat (map (\<lambda>section. get_or (s_declarations section) [])
       (filter (\<lambda>section. get_or (s_kind section) [] = ''declarations'')
          (get_or (doc_primaryContentSections data) [])))"

text \<open>The title of a document, when it has one.\<close>

definition doc_title :: "doc \<Rightarrow> string option" where
  "doc_title data = (case doc_metadata data of None \<Rightarrow> None | Some m \<Rightarrow> m_title m)"

text \<open>
  The summary-only rendering of a member: its subheading, and its abstract when the
  abstract is not empty.
\<close>

definition summary_lines :: "(string \<rightharpoonup> ref_summary) \<Rightarrow> string \<Rightarrow> string list" where
  "summary_lines refs identifier =
     (let abstract =
            extract_text_from_content
              (get_or (r_abstract (get_or (refs identifier) empty_reference)) [])
      in [''#### '' @ ref_title_of refs identifier, []]
         @ (if abstract \<noteq> [] then [abstract, []] else []))"

text \<open>The member identifiers of a document, over all its topics.\<close>

definition doc_identifiers :: "doc \<Rightarrow> string list" where
  "doc_identifiers data =
     concat (map (\<lambda>topic. get_or (t_identifiers topic) []) (get_or (doc_topicSections data) []))"

text \<open>The section of a title in the aggregate reference.\<close>

definition section_of :: "(string \<times> class_info) list \<Rightarrow> string \<Rightarrow> string list" where
  "section_of api_by_class class_name =
     (case map_of api_by_class class_name of
        None \<Rightarrow> []
      | Some info \<Rightarrow> class_lines class_name info)"

section \<open>A small corpus\<close>

text \<open>
  The class \<^verbatim>\<open>SCStream\<close> with two members, of which the network knows one, and the
  documents of that member and of an article.
\<close>

definition id_start :: string where
  "id_start =
     ''doc://com.apple.screencapturekit/documentation/ScreenCaptureKit/SCStream/startCapture()''"

definition id_stop :: string where
  "id_stop =
     ''doc://com.apple.screencapturekit/documentation/ScreenCaptureKit/SCStream/stopCapture()''"

definition swift_decl :: "string \<Rightarrow> decl_node" where
  "swift_decl code = \<lparr>d_tokens = Some [\<lparr>tok_text = Some code\<rparr>], d_languages = Some [''swift'']\<rparr>"

definition declarations_section :: "decl_node list \<Rightarrow> primary_section" where
  "declarations_section ds =
     \<lparr>s_kind = Some ''declarations'', s_declarations = Some ds, s_content = None,
      s_parameters = None\<rparr>"

definition paragraph_item :: "string \<Rightarrow> content_item" where
  "paragraph_item s =
     \<lparr>ci_type = Some ''paragraph'', ci_level = None, ci_inlineContent = Some [plainText s],
      ci_syntax = None, ci_code = None, ci_items = None\<rparr>"

definition content_section :: "content_item list \<Rightarrow> primary_section" where
  "content_section cs =
     \<lparr>s_kind = Some ''content'', s_declarations = None, s_content = Some cs,
      s_parameters = None\<rparr>"

definition titled :: "string \<Rightarrow> string \<Rightarrow> metadata" where
  "titled title role =
     \<lparr>m_title = Some title, m_role = Some role, m_symbolKind = None, m_platforms = None\<rparr>"

definition start_doc :: doc where
  "start_doc =
     \<lparr>doc_metadata = Some (titled ''startCapture()'' ''symbol''),
      doc_primaryContentSections =
        Some [declarations_section [swift_decl ''func startCapture()''],
              content_section [paragraph_item ''Starts the stream.'']],
      doc_topicSections = None, doc_seeAlsoSections = None, doc_references = None\<rparr>"

definition sample_fetch :: "string \<Rightarrow> doc option" where
  "sample_fetch url =
     (if url = DOCS_JSON_BASE @ ''/screencapturekit/scstream/startcapture().json''
      then Some start_doc else None)"

definition stream_refs :: "string \<rightharpoonup> ref_summary" where
  "stream_refs =
     [id_start \<mapsto> \<lparr>r_title = Some ''startCapture()'', r_abstract = Some [plainText ''Starts.'']\<rparr>]"

definition stream_doc :: doc where
  "stream_doc =
     \<lparr>doc_metadata = Some (titled ''SCStream'' ''symbol''),
      doc_primaryContentSections = Some [declarations_section [swift_decl ''class SCStream'']],
      doc_topicSections = Some [\<lparr>t_title = Some ''Capture'', t_identifiers = Some [id_start, id_stop]\<rparr>],
      doc_seeAlsoSections = None,
      doc_references = Some stream_refs\<rparr>"

definition article_doc :: doc where
  "article_doc =
     \<lparr>doc_metadata = Some (titled ''Capturing screen content'' ''article''),
      doc_primaryContentSections = Some [declarations_section [swift_decl ''let x = 1'']],
      doc_topicSections = None, doc_seeAlsoSections = None, doc_references = None\<rparr>"

section \<open>Strings\<close>

lemma split_chr_nonempty: "split_chr sep s \<noteq> []"
  by (induction s) (auto split: list.splits)

lemma split_chr_no_sep: "sep \<notin> set s \<Longrightarrow> split_chr sep s = [s]"
  by (induction s) auto

lemma split_chr_at_sep: "split_chr sep (xs @ sep # ys) = split_chr sep xs @ split_chr sep ys"
proof (induction xs)
  case Nil
  show ?case by simp
next
  case (Cons c xs)
  obtain w ws where sp: "split_chr sep xs = w # ws"
    using split_chr_nonempty by (cases "split_chr sep xs") auto
  show ?case using Cons.IH sp by simp
qed

lemma takeWhile_rev_all:
  assumes "sep \<notin> set s"
  shows "takeWhile (\<lambda>c. c \<noteq> sep) (rev s) = rev s"
proof -
  have "\<forall>x\<in>set (rev s). x \<noteq> sep" using assms by auto
  then show ?thesis by (simp only: takeWhile_eq_all_conv)
qed

lemma last_split_chr_suffix:
  assumes "sep \<notin> set ys"
  shows "last (split_chr sep (xs @ sep # ys)) = ys"
  using assms by (simp add: split_chr_at_sep split_chr_no_sep)

lemma last_segment_decompose:
  assumes "CHR ''/'' \<in> set s"
  shows "\<exists>xs. s = xs @ CHR ''/'' # last_segment s"
proof -
  from assms obtain xs ys where s: "s = xs @ CHR ''/'' # ys" and ys: "CHR ''/'' \<notin> set ys"
    using split_list_last by fastforce
  have "takeWhile (\<lambda>c. c \<noteq> CHR ''/'') (rev ys @ CHR ''/'' # rev xs) = rev ys"
    using ys by (auto simp: takeWhile_tail)
  then have "last_segment s = ys"
    by (simp add: last_segment_def s)
  with s show ?thesis by simp
qed

lemma last_segment_free: "CHR ''/'' \<notin> set (last_segment s)"
  unfolding last_segment_def using set_takeWhileD by fastforce

lemma last_segment_no_slash: "CHR ''/'' \<notin> set s \<Longrightarrow> last_segment s = s"
  by (simp add: last_segment_def takeWhile_rev_all)

text \<open>The code's \<^verbatim>\<open>s.split("/")[-1]\<close> is the final segment of the specification.\<close>

lemma last_of_split_last_segment: "last_of_split s = last_segment s"
proof (cases "CHR ''/'' \<in> set s")
  case True
  then obtain xs where s: "s = xs @ CHR ''/'' # last_segment s"
    using last_segment_decompose by blast
  have "last (split_chr (CHR ''/'') (xs @ CHR ''/'' # last_segment s)) = last_segment s"
    by (rule last_split_chr_suffix) (rule last_segment_free)
  with s show ?thesis by (simp add: last_of_split_def)
next
  case False
  then show ?thesis
    by (simp add: last_of_split_def last_segment_no_slash split_chr_no_sep)
qed

section \<open>The inline reducer\<close>

lemma extract_text_append:
  "extract_text_from_content (xs @ ys) =
     extract_text_from_content xs @ extract_text_from_content ys"
  by (induction xs) simp_all

lemma extract_reference:
  "extract_text_from_content [reference i] = ''`'' @ last_segment i @ ''`''"
  by (simp add: reference_def get_or_def last_of_split_last_segment last_segment_no_slash)

text \<open>
  C6. A \<^verbatim>\<open>reference\<close> node reduces to the final \<open>/\<close>-delimited segment of its identifier
  in backticks. The segment has no \<open>/\<close>; it follows the last \<open>/\<close> of the identifier, or
  is the whole identifier when there is no \<open>/\<close>. The two examples of the specification
  reduce to \<^verbatim>\<open>`bar`\<close>.
\<close>

theorem reference_reduces_to_last_segment:
  "extract_text_from_content [reference identifier] = ''`'' @ last_segment identifier @ ''`''
   \<and> CHR ''/'' \<notin> set (last_segment identifier)
   \<and> (if CHR ''/'' \<in> set identifier
      then \<exists>pre. identifier = pre @ ''/'' @ last_segment identifier
      else last_segment identifier = identifier)
   \<and> extract_text_from_content [reference ''doc://ns/documentation/Foo/bar''] = ''`bar`''
   \<and> extract_text_from_content [reference ''bar''] = ''`bar`''"
proof -
  have b: "last_segment ''doc://ns/documentation/Foo/bar'' = ''bar''"
    by (simp add: last_segment_def)
  have c: "last_segment ''bar'' = ''bar''"
    by (simp add: last_segment_def)
  have d: "if CHR ''/'' \<in> set identifier
      then \<exists>pre. identifier = pre @ ''/'' @ last_segment identifier
      else last_segment identifier = identifier"
  proof (cases "CHR ''/'' \<in> set identifier")
    case True
    then obtain xs where "identifier = xs @ CHR ''/'' # last_segment identifier"
      using last_segment_decompose by blast
    then have "\<exists>pre. identifier = pre @ ''/'' @ last_segment identifier" by auto
    with True show ?thesis by simp
  next
    case False
    then show ?thesis by (simp add: last_segment_no_slash)
  qed
  show ?thesis
    using d by (simp only: extract_reference b c last_segment_free) simp
qed

theorem reference_reduces_to_last_segment_witness:
  "extract_text_from_content
     [reference ''doc://com.apple.screencapturekit/documentation/ScreenCaptureKit/SCStream/stopCapture()'']
     = ''`stopCapture()`''
   \<and> extract_text_from_content [reference ''SCStream''] = ''`SCStream`''"
  using reference_reduces_to_last_segment
      [of "''doc://com.apple.screencapturekit/documentation/ScreenCaptureKit/SCStream/stopCapture()''"]
    reference_reduces_to_last_segment [of "''SCStream''"]
  by (simp add: last_segment_def)

text \<open>
  C8. The reduction is a function of the sequence alone: the source reads nothing but
  its argument and writes nothing but a local list. So equal sequences reduce to equal
  strings, the empty sequence reduces to the empty string, and the reduction of a
  sequence is the reduction of its parts put together, with nothing carried from one
  node to the next.
\<close>

theorem reduce_deterministic:
  "extract_text_from_content [] = []
   \<and> (\<forall>s s'. s = s' \<longrightarrow> extract_text_from_content s = extract_text_from_content s')
   \<and> extract_text_from_content (xs @ ys) =
       extract_text_from_content xs @ extract_text_from_content ys"
  by (simp add: extract_text_append)

theorem reduce_deterministic_witness:
  "extract_text_from_content ([plainText ''a''] @ [strong [plainText ''b'']]) = ''a**b**''
   \<and> extract_text_from_content [link [plainText ''x''] ''http://e''] = ''[x](http://e)''
   \<and> extract_text_from_content [plainText ''a'', strong [plainText ''b'']] =
       extract_text_from_content [plainText ''a'', strong [plainText ''b'']]"
  using reduce_deterministic [of "[plainText ''a'']" "[strong [plainText ''b'']]"]
  by (simp add: plainText_def strong_def link_def get_or_def)


section \<open>Rendering one document\<close>

lemma join_two: "join sep (x # y # ys) = x @ sep @ join sep (y # ys)"
  by simp

lemma declarations_lines_error:
  "declarations_lines ds = Inl e \<Longrightarrow> e = IndexError \<and> (\<exists>d\<in>set ds. d_languages d = Some [])"
proof (induction ds)
  case Nil
  then show ?case by simp
next
  case (Cons d ds)
  then show ?case
    by (cases "d_languages d")
      (auto simp: index0_def get_or_def Let_def split: sum.splits list.splits)
qed

lemma declarations_lines_ok:
  "\<forall>d\<in>set ds. d_languages d \<noteq> Some [] \<Longrightarrow> \<exists>ls. declarations_lines ds = Inr ls"
  using declarations_lines_error by (cases "declarations_lines ds") auto

lemma declarations_lines_raises:
  "d \<in> set ds \<Longrightarrow> d_languages d = Some [] \<Longrightarrow> declarations_lines ds = Inl IndexError"
proof (induction ds)
  case Nil
  then show ?case by simp
next
  case (Cons a ds)
  show ?case
  proof (cases "index0 (get_or (d_languages a) [''swift''])")
    case (Inl e)
    then have "e = IndexError" by (auto simp: index0_def split: list.splits)
    with Inl show ?thesis by simp
  next
    case (Inr lang)
    then have "a \<noteq> d" using Cons.prems(2) by (auto simp: index0_def get_or_def)
    then have "declarations_lines ds = Inl IndexError" using Cons by auto
    with Inr show ?thesis by simp
  qed
qed

lemma primary_lines_raises_iff:
  "primary_lines ss = Inl e \<longleftrightarrow>
     e = IndexError \<and>
     (\<exists>d\<in>set (concat (map (\<lambda>section. get_or (s_declarations section) [])
        (filter (\<lambda>section. get_or (s_kind section) [] = ''declarations'') ss))).
        d_languages d = Some [])"
proof (induction ss)
  case Nil
  then show ?case by simp
next
  case (Cons a ss)
  show ?case
  proof (cases "get_or (s_kind a) [] = ''declarations''")
    case True
    show ?thesis
    proof (cases "declarations_lines (get_or (s_declarations a) [])")
      case (Inl e')
      then have "e' = IndexError"
        and "\<exists>d\<in>set (get_or (s_declarations a) []). d_languages d = Some []"
        using declarations_lines_error by blast+
      then show ?thesis using True Inl by (auto simp: section_lines_def)
    next
      case (Inr ls)
      then have "\<not> (\<exists>d\<in>set (get_or (s_declarations a) []). d_languages d = Some [])"
        using declarations_lines_raises by fastforce
      then show ?thesis using True Inr Cons.IH
        by (auto simp: section_lines_def split: sum.splits)
    qed
  next
    case False
    then show ?thesis using Cons.IH
      by (auto simp: section_lines_def Let_def split: sum.splits)
  qed
qed

text \<open>
  The rendering raises exactly when a rendered declaration has a list of languages that
  is present and empty; the exception is IndexError, and no child was fetched before.
\<close>

lemma json_to_markdown_raises_iff:
  "fst (json_to_markdown fetch_json data path include_children) = Inl e \<longleftrightarrow>
     e = IndexError \<and> (\<exists>d\<in>set (rendered_declarations data). d_languages d = Some [])"
  using primary_lines_raises_iff [of "get_or (doc_primaryContentSections data) []" e]
  by (auto simp: json_to_markdown_def rendered_declarations_def Let_def split: sum.splits)

lemma json_to_markdown_returns:
  assumes "\<forall>d\<in>set (rendered_declarations data). d_languages d \<noteq> Some []"
  shows "\<exists>out. fst (json_to_markdown fetch_json data path include_children) = Inr out"
proof (cases "fst (json_to_markdown fetch_json data path include_children)")
  case (Inl e)
  then show ?thesis using assms json_to_markdown_raises_iff by blast
next
  case (Inr out)
  then show ?thesis by blast
qed


lemma member_lines_summary_only:
  "member_lines fetch_json refs False identifier = (summary_lines refs identifier, [])"
  by (simp add: member_lines_def summary_lines_def ref_title_of_def Let_def)

lemma member_lines_failed_fetch:
  "fetch_child_doc fetch_json identifier = None \<Longrightarrow>
     fst (member_lines fetch_json refs True identifier) = summary_lines refs identifier"
  by (simp add: member_lines_def summary_lines_def ref_title_of_def Let_def)

lemma topic_lines_no_expand:
  "topic_lines fetch_json refs False topic =
     ([''### '' @ get_or (t_title topic) [], []]
        @ concat (map (summary_lines refs) (get_or (t_identifiers topic) [])) @ [[]], [])"
  by (simp add: topic_lines_def member_lines_summary_only Let_def comp_def)

lemma topics_lines_no_expand:
  "topics_lines fetch_json refs False topics =
     (if topics \<noteq> [] then
        [''## Topics'', []]
        @ concat (map (\<lambda>topic.
            [''### '' @ get_or (t_title topic) [], []]
            @ concat (map (summary_lines refs) (get_or (t_identifiers topic) [])) @ [[]]) topics)
      else [], [])"
  by (simp add: topics_lines_def topic_lines_no_expand Let_def comp_def)

lemma topic_lines_all_failed:
  assumes "\<forall>i\<in>set (get_or (t_identifiers topic) []). fetch_child_doc fetch_json i = None"
  shows "fst (topic_lines fetch_json refs True topic) = fst (topic_lines fetch_json refs False topic)"
proof -
  have "concat (map (\<lambda>i. fst (member_lines fetch_json refs True i))
                 (get_or (t_identifiers topic) []))
      = concat (map (summary_lines refs) (get_or (t_identifiers topic) []))"
    using assms by (intro arg_cong [where f = concat]) (simp add: member_lines_failed_fetch)
  then show ?thesis
    by (simp add: topic_lines_def member_lines_summary_only Let_def comp_def)
qed

lemma topics_lines_all_failed:
  assumes "\<forall>t\<in>set topics. \<forall>i\<in>set (get_or (t_identifiers t) []).
             fetch_child_doc fetch_json i = None"
  shows "fst (topics_lines fetch_json refs True topics)
       = fst (topics_lines fetch_json refs False topics)"
proof -
  have "concat (map (\<lambda>t. fst (topic_lines fetch_json refs True t)) topics)
      = concat (map (\<lambda>t. fst (topic_lines fetch_json refs False t)) topics)"
    using assms by (intro arg_cong [where f = concat]) (simp add: topic_lines_all_failed)
  then show ?thesis
    by (simp add: topics_lines_def Let_def comp_def)
qed

lemma json_to_markdown_all_failed:
  assumes "\<forall>i\<in>set (doc_identifiers data). fetch_child_doc fetch_json i = None"
  shows "fst (json_to_markdown fetch_json data path True)
       = fst (json_to_markdown fetch_json data path False)"
proof -
  have "\<forall>t\<in>set (get_or (doc_topicSections data) []).
          \<forall>i\<in>set (get_or (t_identifiers t) []). fetch_child_doc fetch_json i = None"
    using assms by (auto simp: doc_identifiers_def)
  then have "fst (topics_lines fetch_json (get_or (doc_references data) Map.empty) True
                 (get_or (doc_topicSections data) []))
           = fst (topics_lines fetch_json (get_or (doc_references data) Map.empty) False
                 (get_or (doc_topicSections data) []))"
    by (rule topics_lines_all_failed)
  then show ?thesis
    by (simp add: json_to_markdown_def Let_def split: sum.splits)
qed

section \<open>The aggregate reference\<close>

lemma class_sections_total:
  "set ks \<subseteq> fst ` set api \<Longrightarrow>
     class_sections api ks = Inr (concat (map (section_of api) ks))"
proof (induction ks)
  case Nil
  then show ?case by simp
next
  case (Cons k ks)
  then obtain info where "map_of api k = Some info"
    by (cases "map_of api k") (auto simp: map_of_eq_None_iff)
  with Cons show ?case by (simp add: section_of_def)
qed

lemma set_sorted_keys: "set (sorted_keys api) = fst ` set api"
  by (simp add: sorted_keys_def)

lemma render_api_total:
  "render_api api =
     Inr (join nl (api_header @ toc_lines api @ concat (map (section_of api) (sorted_keys api))))"
  by (simp add: render_api_def class_sections_total set_sorted_keys)

lemma identifier_members_failed_fetch:
  "fetch_child_doc fetch_json identifier = None \<Longrightarrow>
     identifier_members fetch_json topic_title identifier = []"
  by (simp add: identifier_members_def)


section \<open>Claims about the rendering of one document\<close>

text \<open>
  C2. The specification says that rendering never raises for the shape of the data, also
  when a declaration has a \<^verbatim>\<open>languages\<close> list that is present and empty. The code takes
  \<^verbatim>\<open>decl.get("languages", ["swift"])[0]\<close>: the default covers the absent key only, and
  on the empty list the index raises IndexError, whatever the path, the network and the
  expansion flag. The child rendering of the same document does not read the languages
  and returns.
\<close>

theorem empty_languages_raises:
  "fst (json_to_markdown fetch_json doc_without_language path include_children) = Inl IndexError
   \<and> format_child_doc (Some doc_without_language) = ''```swift'' @ nl @ ''class SCStream'' @ nl @ ''```''"
  by (simp add: json_to_markdown_def doc_without_language_def decl_without_language_def
      empty_doc_def section_lines_def index0_def get_or_def format_declaration_def
      format_child_doc_def nl_def Let_def)

text \<open>
  C5. Without expansion no call of \<^verbatim>\<open>fetch_child_doc\<close> is made, and the result is the
  same for every network: it is a function of the document and the path.
\<close>

theorem no_fetch_without_expansion:
  "snd (json_to_markdown fetch_json data path False) = []
   \<and> json_to_markdown fetch_json data path False = json_to_markdown fetch_json' data path False"
  by (simp add: json_to_markdown_def topics_lines_no_expand Let_def split: sum.splits)

theorem no_fetch_without_expansion_witness:
  "snd (json_to_markdown sample_fetch stream_doc ''screencapturekit_scstream'' False) = []
   \<and> snd (json_to_markdown sample_fetch stream_doc ''screencapturekit_scstream'' True)
       = [id_start, id_stop]
   \<and> json_to_markdown sample_fetch stream_doc ''screencapturekit_scstream'' False
       = json_to_markdown (\<lambda>url. None) stream_doc ''screencapturekit_scstream'' False"
proof -
  have "snd (json_to_markdown sample_fetch stream_doc ''screencapturekit_scstream'' True)
       = [id_start, id_stop]"
    by (simp add: json_to_markdown_def stream_doc_def declarations_section_def swift_decl_def
        section_lines_def index0_def get_or_def topics_lines_def topic_lines_def
        member_lines_def ns_prefix_def id_start_def id_stop_def Let_def)
  then show ?thesis
    using no_fetch_without_expansion
      [of sample_fetch stream_doc "''screencapturekit_scstream''" "\<lambda>url. None"]
    by metis
qed

text \<open>
  C9. When the rendering returns, its text starts with the heading: the title of the
  document when the metadata has one, the last \<open>/\<close>-segment of the path when the title or
  the metadata is missing.
\<close>

theorem title_falls_back_to_last_path_segment:
  assumes "fst (json_to_markdown fetch_json data path include_children) = Inr out"
  shows "\<exists>rest. out =
           ''# '' @ (case doc_title data of Some title \<Rightarrow> title | None \<Rightarrow> last_segment path)
             @ nl @ rest"
proof -
  have "get_or (m_title (get_or (doc_metadata data) empty_metadata)) (last_of_split path)
      = (case doc_title data of Some title \<Rightarrow> title | None \<Rightarrow> last_segment path)"
    by (simp add: doc_title_def get_or_def empty_metadata_def last_of_split_last_segment
        split: option.splits)
  then show ?thesis
    using assms
    by (auto simp: json_to_markdown_def Let_def split: sum.splits)
qed

theorem title_falls_back_to_last_path_segment_witness:
  "fst (json_to_markdown sample_fetch empty_doc ''screencapturekit/scstream'' False)
     = Inr (''# scstream'' @ nl)
   \<and> (\<exists>rest. ''# scstream'' @ nl = ''# scstream'' @ nl @ rest)
   \<and> (\<exists>rest. fst (json_to_markdown sample_fetch
                    (empty_doc\<lparr>doc_metadata := Some (titled ''SCStream'' ''symbol'')\<rparr>)
                    ''screencapturekit/scstream'' False)
               = Inr (''# SCStream'' @ nl @ rest))"
proof -
  have a: "fst (json_to_markdown sample_fetch empty_doc ''screencapturekit/scstream'' False)
      = Inr (''# scstream'' @ nl)"
    by (simp add: json_to_markdown_def empty_doc_def get_or_def empty_metadata_def
        last_of_split_def availability_lines_def topics_lines_def see_also_lines_def Let_def)
  have b: "fst (json_to_markdown sample_fetch
                  (empty_doc\<lparr>doc_metadata := Some (titled ''SCStream'' ''symbol'')\<rparr>)
                  ''screencapturekit/scstream'' False)
      = Inr (''# SCStream'' @ nl @ nl @ ''**Type:** symbol'' @ nl)"
    by (simp add: json_to_markdown_def empty_doc_def get_or_def titled_def
        last_of_split_def availability_lines_def topics_lines_def see_also_lines_def Let_def)
  show ?thesis
    using title_falls_back_to_last_path_segment [OF a] title_falls_back_to_last_path_segment [OF b]
    by (simp add: a b)
qed


text \<open>
  C7. A member whose child document cannot be fetched is rendered by its summary alone
  (subheading and abstract), in place, between the renderings of the other members of the
  topic. The fetches add no failure: the expanded rendering raises exactly when the
  rendering without expansion does, and when every member of the document fails the two
  renderings are the same text. In the aggregation the member adds no entry, the entries
  of the other members of the topic stay, and the run ends with a document.
\<close>

theorem failed_child_fetch_is_not_fatal:
  assumes "fetch_child_doc fetch_json identifier = None"
  shows "fst (member_lines fetch_json refs True identifier) = summary_lines refs identifier
    \<and> fst (topic_lines fetch_json refs True
             \<lparr>t_title = title, t_identifiers = Some (pre @ identifier # post)\<rparr>)
        = [''### '' @ get_or title [], []]
          @ concat (map (\<lambda>i. fst (member_lines fetch_json refs True i)) pre)
          @ summary_lines refs identifier
          @ concat (map (\<lambda>i. fst (member_lines fetch_json refs True i)) post)
          @ [[]]
    \<and> (fst (json_to_markdown fetch_json data path True) = Inl e
         \<longleftrightarrow> fst (json_to_markdown fetch_json data path False) = Inl e)
    \<and> ((\<forall>i\<in>set (doc_identifiers data). fetch_child_doc fetch_json i = None)
         \<longrightarrow> fst (json_to_markdown fetch_json data path True)
             = fst (json_to_markdown fetch_json data path False))
    \<and> identifier_members fetch_json topic_title identifier = []
    \<and> topic_members fetch_json \<lparr>t_title = title, t_identifiers = Some (pre @ identifier # post)\<rparr>
        = topic_members fetch_json \<lparr>t_title = title, t_identifiers = Some (pre @ post)\<rparr>
    \<and> (\<exists>out. generate_api_complete fetch_json corpus = Inr out)"
proof -
  have m: "fst (member_lines fetch_json refs True identifier) = summary_lines refs identifier"
    using assms by (rule member_lines_failed_fetch)
  have t: "fst (topic_lines fetch_json refs True
             \<lparr>t_title = title, t_identifiers = Some (pre @ identifier # post)\<rparr>)
        = [''### '' @ get_or title [], []]
          @ concat (map (\<lambda>i. fst (member_lines fetch_json refs True i)) pre)
          @ summary_lines refs identifier
          @ concat (map (\<lambda>i. fst (member_lines fetch_json refs True i)) post)
          @ [[]]"
    by (simp add: topic_lines_def m Let_def comp_def get_or_def)
  have r: "fst (json_to_markdown fetch_json data path True) = Inl e
         \<longleftrightarrow> fst (json_to_markdown fetch_json data path False) = Inl e"
    by (simp add: json_to_markdown_raises_iff)
  have a: "(\<forall>i\<in>set (doc_identifiers data). fetch_child_doc fetch_json i = None)
         \<longrightarrow> fst (json_to_markdown fetch_json data path True)
             = fst (json_to_markdown fetch_json data path False)"
    using json_to_markdown_all_failed by blast
  have i: "identifier_members fetch_json topic_title identifier = []" for topic_title
    using assms by (rule identifier_members_failed_fetch)
  have tm: "topic_members fetch_json
              \<lparr>t_title = title, t_identifiers = Some (pre @ identifier # post)\<rparr>
        = topic_members fetch_json \<lparr>t_title = title, t_identifiers = Some (pre @ post)\<rparr>"
    by (simp add: topic_members_def i Let_def get_or_def)
  have g: "\<exists>out. generate_api_complete fetch_json corpus = Inr out"
    by (simp add: generate_api_complete_def render_api_total)
  from m t r a i tm g show ?thesis by blast
qed

theorem failed_child_fetch_is_not_fatal_witness:
  "fetch_child_doc sample_fetch id_stop = None
   \<and> fst (member_lines sample_fetch stream_refs True id_stop) = [''#### stopCapture()'', []]
   \<and> fst (topic_lines sample_fetch stream_refs True
            \<lparr>t_title = Some ''Capture'', t_identifiers = Some [id_start, id_stop]\<rparr>)
       = [''### Capture'', [],
          ''#### startCapture()'', [], ''Starts.'', [],
          ''```swift'' @ nl @ ''func startCapture()'' @ nl @ ''```'' @ nl @ ''Starts the stream.'', [],
          ''#### stopCapture()'', [],
          []]
   \<and> topic_members sample_fetch
         \<lparr>t_title = Some ''Capture'', t_identifiers = Some [id_start, id_stop]\<rparr>
       = [\<lparr>mem_name = ''startCapture()'', mem_declaration = ''func startCapture()'',
           mem_kind = ''symbol'', mem_topic = ''Capture''\<rparr>]"
proof -
  have stop: "fetch_child_doc sample_fetch id_stop = None"
    by (simp add: fetch_child_doc_def identifier_to_path_def doc_prefix_def id_stop_def
        replace_def lower_def lower_chr_def sample_fetch_def DOCS_JSON_BASE_def)
  have start: "fetch_child_doc sample_fetch id_start = Some start_doc"
    by (simp add: fetch_child_doc_def identifier_to_path_def doc_prefix_def id_start_def
        replace_def lower_def lower_chr_def sample_fetch_def DOCS_JSON_BASE_def)
  have sum_stop: "summary_lines stream_refs id_stop = [''#### stopCapture()'', []]"
    by (simp add: summary_lines_def stream_refs_def ref_title_of_def empty_reference_def
        get_or_def id_stop_def id_start_def last_of_split_def Let_def)
  have child: "format_child_doc (Some start_doc)
      = ''```swift'' @ nl @ ''func startCapture()'' @ nl @ ''```'' @ nl @ ''Starts the stream.''"
    by (simp add: format_child_doc_def start_doc_def declarations_section_def
        content_section_def swift_decl_def paragraph_item_def plainText_def titled_def
        format_declaration_def get_or_def nl_def Let_def)
  have ne: "format_child_doc (Some start_doc) \<noteq> []"
    by (simp add: child)
  have pre_start: "prefix ns_prefix id_start"
    by (simp add: ns_prefix_def id_start_def)
  have mem_start: "fst (member_lines sample_fetch stream_refs True id_start)
      = [''#### startCapture()'', [], ''Starts.'', [],
         ''```swift'' @ nl @ ''func startCapture()'' @ nl @ ''```'' @ nl @ ''Starts the stream.'', []]"
    using ne pre_start
    by (simp add: member_lines_def start child stream_refs_def get_or_def plainText_def Let_def)
  have members_start: "identifier_members sample_fetch ''Capture'' id_start
      = [\<lparr>mem_name = ''startCapture()'', mem_declaration = ''func startCapture()'',
          mem_kind = ''symbol'', mem_topic = ''Capture''\<rparr>]"
    using pre_start
    by (simp add: identifier_members_def start start_doc_def declarations_section_def
        content_section_def swift_decl_def titled_def child_section_members_def
        format_declaration_def get_or_def Let_def)
  show ?thesis
    using failed_child_fetch_is_not_fatal
      [OF stop, of stream_refs "Some ''Capture''" "[id_start]" "[]" _ _ _ "''Capture''"]
    by (simp add: stop sum_stop mem_start members_start topic_members_def get_or_def)
qed

end
